theory Spec2Isabelle
  imports Complex_Main "HOL-Library.AList" "HOL-Library.Sublist"
begin

section \<open>Product\<close>

text \<open>
  \<^verbatim>\<open>class Product\<close> of \<^verbatim>\<open>Invent.py\<close>, lines 8-21. Python's unbounded
  integers are \<open>int\<close>. The price is a Python float; it is carried as a \<open>real\<close> and no
  arithmetic is done on it here. Text is a list of characters, read as ASCII.
\<close>

record Product =
  product_id :: int
  name :: string
  category :: string
  price :: real
  quantity :: int
  reorder_level :: int

definition update_quantity :: "Product \<Rightarrow> int \<Rightarrow> Product" where
  "update_quantity p amount = p\<lparr>quantity := quantity p + amount\<rparr>"

definition is_low_stock :: "Product \<Rightarrow> bool" where
  "is_low_stock p = (quantity p \<le> reorder_level p)"

section \<open>Text helpers\<close>

text \<open>
  Python text is modelled where all its characters are ASCII, which \<open>is_ascii\<close> says.
  There \<^verbatim>\<open>str.lower()\<close> moves the letters A-Z to a-z and leaves every other character,
  which is \<open>lower\<close>. On other text Python's \<^verbatim>\<open>lower\<close> follows the Unicode tables and is
  not this function; a theorem that rests on \<open>lower\<close> for more than the empty text
  assumes ASCII text.
\<close>

definition is_ascii :: "string \<Rightarrow> bool" where
  "is_ascii s = list_all (\<lambda>c. (of_char c :: nat) < 128) s"




section \<open>Inventory\<close>

text \<open>
  \<^verbatim>\<open>class Inventory\<close>, lines 27-58. The dictionary \<^verbatim>\<open>self.products\<close> keeps insertion
  order, an assignment to a key already present keeps that key's position, and \<^verbatim>\<open>pop\<close>
  removes the key: an association list with \<open>AList.update\<close> and \<open>AList.delete\<close>.
  What the methods print is returned as a list of events.
\<close>

datatype event =
    LowStockAlert string int
  | UnitsSold string int
  | Printed string

record Inventory =
  products :: "(int \<times> Product) list"

definition Inventory_init :: "Inventory" where
  "Inventory_init = \<lparr>products = []\<rparr>"

definition products_values :: "Inventory \<Rightarrow> Product list" where
  "products_values invt = map snd (products invt)"

definition check_low_stock :: "Product \<Rightarrow> event list" where
  "check_low_stock p = (if is_low_stock p then [LowStockAlert (name p) (quantity p)] else [])"

definition add_product :: "Inventory \<Rightarrow> Product \<Rightarrow> Inventory \<times> event list" where
  "add_product invt p =
     (invt\<lparr>products := AList.update (product_id p) p (products invt)\<rparr>, check_low_stock p)"

definition remove_product :: "Inventory \<Rightarrow> int \<Rightarrow> Inventory" where
  "remove_product invt pid = invt\<lparr>products := AList.delete pid (products invt)\<rparr>"

definition get_product :: "Inventory \<Rightarrow> int \<Rightarrow> Product option" where
  "get_product invt pid = map_of (products invt) pid"



text \<open>A run of \<^verbatim>\<open>add_product\<close> calls, the events of all of them in order.\<close>

fun add_products :: "Inventory \<Rightarrow> Product list \<Rightarrow> Inventory \<times> event list" where
  "add_products invt [] = (invt, [])"
| "add_products invt (p # ps) =
     (case add_product invt p of (inv1, ev1) \<Rightarrow>
        (case add_products inv1 ps of (inv2, ev2) \<Rightarrow> (inv2, ev1 @ ev2)))"

section \<open>Transactions and the turnover report\<close>

text \<open>
  \<^verbatim>\<open>class Transaction\<close> and \<^verbatim>\<open>class TransactionLogger\<close>, lines 100-114. The fields
  \<^verbatim>\<open>product_id\<close> and \<^verbatim>\<open>quantity\<close> carry the prefix \<open>t_\<close> here, the names being taken by
  the product's fields. The type is the text \<^verbatim>\<open>"IN"\<close> or \<^verbatim>\<open>"OUT"\<close>, as in the code; the
  date is the clock's reading, handed in by the caller.
\<close>

record Transaction =
  transaction_id :: int
  t_product_id :: int
  t_quantity :: int
  transaction_type :: string
  date :: nat

record TransactionLogger =
  transactions :: "Transaction list"

definition TransactionLogger_init :: "TransactionLogger" where
  "TransactionLogger_init = \<lparr>transactions = []\<rparr>"

definition log :: "TransactionLogger \<Rightarrow> Transaction \<Rightarrow> TransactionLogger" where
  "log lg t = lg\<lparr>transactions := transactions lg @ [t]\<rparr>"

text \<open>
  \<^verbatim>\<open>StatisticalReport.turnover_report\<close>, lines 132-142, on the report's inventory and logger.
  \<open>dict_get0 d k\<close> is \<^verbatim>\<open>d.get(k, 0)\<close>. The first loop fills the dictionary \<^verbatim>\<open>turnover\<close>,
  the second prints one line per entry of the inventory, returned here as events.
\<close>

definition dict_get0 :: "(int \<rightharpoonup> int) \<Rightarrow> int \<Rightarrow> int" where
  "dict_get0 d k = (case d k of None \<Rightarrow> 0 | Some v \<Rightarrow> v)"

definition turnover_step :: "(int \<rightharpoonup> int) \<Rightarrow> Transaction \<Rightarrow> (int \<rightharpoonup> int)" where
  "turnover_step turnover t =
     (if transaction_type t = ''OUT''
      then turnover(t_product_id t \<mapsto> dict_get0 turnover (t_product_id t) + \<bar>t_quantity t\<bar>)
      else turnover)"

definition turnover_table :: "TransactionLogger \<Rightarrow> (int \<rightharpoonup> int)" where
  "turnover_table lg = foldl turnover_step Map.empty (transactions lg)"

definition turnover_report :: "Inventory \<Rightarrow> TransactionLogger \<Rightarrow> event list" where
  "turnover_report invt lg =
     map (\<lambda>(pid, product). UnitsSold (name product) (dict_get0 (turnover_table lg) pid))
       (products invt)"

section \<open>Exceptions\<close>

text \<open>
  The exceptions the modelled code can raise; \<open>CsvError\<close> is \<^verbatim>\<open>csv.Error\<close>. \<open>NoneAsText\<close> is
  no exception of Python: it marks the one place, in the loading of a file, where the
  code goes on with a value that the typed record of this theory cannot hold.
\<close>

datatype error = ValueError | TypeError | KeyError | FileNotFoundError | CsvError | NoneAsText

section \<open>Reading integers\<close>

text \<open>
  Python's \<^verbatim>\<open>int(s)\<close> on ASCII text: the white space around the number (tab, line feed,
  vertical tab, form feed, carriage return, space) is dropped, one sign may lead, and
  the digits may be grouped by single underscores. A number of more than 4300 digits is
  refused, as Python's default limit on the conversion has it. \<open>None\<close> is the
  \<^verbatim>\<open>ValueError\<close>. On text with other than ASCII characters Python also reads the digits
  and the spaces of other scripts, which this function does not.
\<close>

definition is_space :: "char \<Rightarrow> bool" where
  "is_space c = (let n = (of_char c :: nat) in (9 \<le> n \<and> n \<le> 13) \<or> n = 32)"

definition is_digit :: "char \<Rightarrow> bool" where
  "is_digit c = (let n = (of_char c :: nat) in 48 \<le> n \<and> n \<le> 57)"

definition digit_val :: "char \<Rightarrow> nat" where
  "digit_val c = of_char c - 48"

definition strip :: "string \<Rightarrow> string" where
  "strip s = rev (dropWhile is_space (rev (dropWhile is_space s)))"

fun int_digits :: "nat \<Rightarrow> string \<Rightarrow> nat option" where
  "int_digits acc [] = None"
| "int_digits acc [c] = (if is_digit c then Some (10 * acc + digit_val c) else None)"
| "int_digits acc (c # d # ds) =
     (if is_digit c
      then (if d = CHR ''_'' then int_digits (10 * acc + digit_val c) ds
            else int_digits (10 * acc + digit_val c) (d # ds))
      else None)"

definition max_str_digits :: nat where
  "max_str_digits = 4300"

definition int_py :: "string \<Rightarrow> int option" where
  "int_py s =
     (if length (filter is_digit (strip s)) > max_str_digits then None
      else
        (case strip s of
           [] \<Rightarrow> None
         | c # cs \<Rightarrow>
             if c = CHR ''-'' then map_option (\<lambda>n. - int n) (int_digits 0 cs)
             else if c = CHR ''+'' then map_option int (int_digits 0 cs)
             else map_option int (int_digits 0 (c # cs))))"

section \<open>CSV files\<close>

text \<open>
  \<^verbatim>\<open>class FileManager\<close>, lines 64-94, with the parts of Python's \<^verbatim>\<open>csv\<close> module and of
  its text files that the class runs: the writer and the reader of the default dialect
  (delimiter comma, quote character the double quote, quotes doubled, minimal quoting,
  line terminator CR LF, not strict, field limit 131072), \<^verbatim>\<open>DictReader\<close>, and the newline
  handling of \<^verbatim>\<open>open\<close>. A file system is a map from file names to the text stored. How a
  float is printed and read is a parameter of the functions, \<open>str_float\<close> and \<open>float_py\<close>;
  the floats that are no real numbers are outside the model. The behaviour modelled is
  that of Python 3.11 and later.
\<close>

type_synonym files = "string \<rightharpoonup> string"

abbreviation CR :: char where "CR \<equiv> CHR 0x0D"
abbreviation LF :: char where "LF \<equiv> CHR 0x0A"
abbreviation DQUOTE :: char where "DQUOTE \<equiv> CHR 0x22"
abbreviation COMMA :: char where "COMMA \<equiv> CHR 0x2C"

subsection \<open>Printing integers\<close>

text \<open>
  \<^verbatim>\<open>str(i)\<close> of an integer: its decimal digits, a minus sign first when it is negative.
  Python refuses a number of more than 4300 digits with a \<^verbatim>\<open>ValueError\<close>, here \<open>None\<close>.
\<close>

fun str_nat :: "nat \<Rightarrow> string" where
  "str_nat n =
     (if n < 10 then [char_of (48 + n)] else str_nat (n div 10) @ [char_of (48 + n mod 10)])"

declare str_nat.simps [simp del]

definition str_int :: "int \<Rightarrow> string option" where
  "str_int i =
     (let digits = str_nat (nat \<bar>i\<bar>)
      in if length digits > max_str_digits then None
         else Some (if i < 0 then CHR ''-'' # digits else digits))"

subsection \<open>The writer\<close>

text \<open>
  \<^verbatim>\<open>csv.writer.writerow\<close> on a row of texts: a field that holds the delimiter, the quote
  character or a character of the line terminator is put in quotes, each quote in it
  doubled; the fields are joined by commas and the line terminator follows. A row of
  one empty field is written as a pair of quotes.
\<close>

definition needs_quotes :: "string \<Rightarrow> bool" where
  "needs_quotes s = list_ex (\<lambda>c. c = COMMA \<or> c = DQUOTE \<or> c = CR \<or> c = LF) s"

definition csv_field :: "string \<Rightarrow> string" where
  "csv_field s =
     (if needs_quotes s
      then DQUOTE # concat (map (\<lambda>c. if c = DQUOTE then [DQUOTE, DQUOTE] else [c]) s) @ [DQUOTE]
      else s)"

fun join_fields :: "string list \<Rightarrow> string" where
  "join_fields [] = []"
| "join_fields [f] = f"
| "join_fields (f # g # gs) = f @ COMMA # join_fields (g # gs)"

definition writerow :: "string list \<Rightarrow> string" where
  "writerow values =
     (if values = [[]] then [DQUOTE, DQUOTE, CR, LF]
      else join_fields (map csv_field values) @ [CR, LF])"

definition header :: "string list" where
  "header = [''product_id'', ''name'', ''category'', ''price'', ''quantity'', ''reorder_level'']"

text \<open>
  The row of a product, lines 74-77: the writer turns each cell into text with \<^verbatim>\<open>str\<close>,
  from left to right, and the first integer that is too long raises.
\<close>

definition product_row :: "(real \<Rightarrow> string) \<Rightarrow> Product \<Rightarrow> string list option" where
  "product_row str_float p =
     (case str_int (product_id p) of
        None \<Rightarrow> None
      | Some pid \<Rightarrow>
          (case str_int (quantity p) of
             None \<Rightarrow> None
           | Some qty \<Rightarrow>
               (case str_int (reorder_level p) of
                  None \<Rightarrow> None
                | Some lvl \<Rightarrow>
                    Some [pid, name p, category p, str_float (price p), qty, lvl])))"

text \<open>
  \<^verbatim>\<open>save_inventory\<close>, lines 65-77. The file is opened with \<^verbatim>\<open>newline=""\<close>, so the text is
  stored as the writer produced it. Opening the file for writing is taken to succeed.
  When a row raises, the rows written before it are in the file.
\<close>

fun save_rows :: "(real \<Rightarrow> string) \<Rightarrow> string \<Rightarrow> Product list \<Rightarrow> error option \<times> string" where
  "save_rows str_float written [] = (None, written)"
| "save_rows str_float written (p # ps) =
     (case product_row str_float p of
        None \<Rightarrow> (Some ValueError, written)
      | Some values \<Rightarrow> save_rows str_float (written @ writerow values) ps)"

definition save_inventory ::
  "(real \<Rightarrow> string) \<Rightarrow> Inventory \<Rightarrow> files \<Rightarrow> string \<Rightarrow> error option \<times> files"
where
  "save_inventory str_float invt fs inventory_products =
     (case save_rows str_float (writerow header) (products_values invt) of
        (res, written) \<Rightarrow> (res, fs(inventory_products \<mapsto> written)))"

subsection \<open>Reading a text file line by line\<close>

text \<open>
  \<^verbatim>\<open>load_inventory\<close> opens the file without a \<^verbatim>\<open>newline\<close> argument: Python then hands out
  the text with every CR LF and every lone CR replaced by LF, in lines that end after
  each LF.
\<close>

fun universal_newlines :: "string \<Rightarrow> string" where
  "universal_newlines [] = []"
| "universal_newlines [c] = [if c = CR then LF else c]"
| "universal_newlines (c # d # cs) =
     (if c = CR
      then (if d = LF then LF # universal_newlines cs else LF # universal_newlines (d # cs))
      else c # universal_newlines (d # cs))"

fun lines_from :: "string \<Rightarrow> string \<Rightarrow> string list" where
  "lines_from cur [] = (if cur = [] then [] else [cur])"
| "lines_from cur (c # cs) =
     (if c = LF then (cur @ [c]) # lines_from [] cs else lines_from (cur @ [c]) cs)"

definition file_lines :: "string \<Rightarrow> string list" where
  "file_lines text = lines_from [] (universal_newlines text)"

subsection \<open>The reader\<close>

text \<open>
  The state machine of the reader, one step per character of a line and one more,
  \<open>None\<close>, at the end of the line. The dialect has no escape character, so the states
  that follow one are left out. A field may not grow beyond the field limit.
\<close>

datatype parser_state =
  START_RECORD | START_FIELD | IN_FIELD | IN_QUOTED_FIELD | QUOTE_IN_QUOTED_FIELD | EAT_CRNL

record reader =
  state :: parser_state
  field :: string
  parsed_fields :: "string list"

definition reader_reset :: reader where
  "reader_reset = \<lparr>state = START_RECORD, field = [], parsed_fields = []\<rparr>"

definition field_limit :: nat where
  "field_limit = 131072"

definition parse_save_field :: "reader \<Rightarrow> parser_state \<Rightarrow> reader" where
  "parse_save_field r st = r\<lparr>state := st, field := [], parsed_fields := parsed_fields r @ [field r]\<rparr>"

definition parse_add_char :: "reader \<Rightarrow> char \<Rightarrow> parser_state \<Rightarrow> error + reader" where
  "parse_add_char r c st =
     (if length (field r) \<ge> field_limit then Inl CsvError
      else Inr (r\<lparr>state := st, field := field r @ [c]\<rparr>))"

definition start_field :: "reader \<Rightarrow> char option \<Rightarrow> error + reader" where
  "start_field r c =
     (case c of
        None \<Rightarrow> Inr (parse_save_field r START_RECORD)
      | Some ch \<Rightarrow>
          if ch = LF \<or> ch = CR then Inr (parse_save_field r EAT_CRNL)
          else if ch = DQUOTE then Inr (r\<lparr>state := IN_QUOTED_FIELD\<rparr>)
          else if ch = COMMA then Inr (parse_save_field r START_FIELD)
          else parse_add_char r ch IN_FIELD)"

definition process_char :: "reader \<Rightarrow> char option \<Rightarrow> error + reader" where
  "process_char r c =
     (case state r of
        START_RECORD \<Rightarrow>
          (case c of
             None \<Rightarrow> Inr r
           | Some ch \<Rightarrow>
               if ch = LF \<or> ch = CR then Inr (r\<lparr>state := EAT_CRNL\<rparr>)
               else start_field r c)
      | START_FIELD \<Rightarrow> start_field r c
      | IN_FIELD \<Rightarrow>
          (case c of
             None \<Rightarrow> Inr (parse_save_field r START_RECORD)
           | Some ch \<Rightarrow>
               if ch = LF \<or> ch = CR then Inr (parse_save_field r EAT_CRNL)
               else if ch = COMMA then Inr (parse_save_field r START_FIELD)
               else parse_add_char r ch IN_FIELD)
      | IN_QUOTED_FIELD \<Rightarrow>
          (case c of
             None \<Rightarrow> Inr r
           | Some ch \<Rightarrow>
               if ch = DQUOTE then Inr (r\<lparr>state := QUOTE_IN_QUOTED_FIELD\<rparr>)
               else parse_add_char r ch IN_QUOTED_FIELD)
      | QUOTE_IN_QUOTED_FIELD \<Rightarrow>
          (case c of
             None \<Rightarrow> Inr (parse_save_field r START_RECORD)
           | Some ch \<Rightarrow>
               if ch = DQUOTE then parse_add_char r ch IN_QUOTED_FIELD
               else if ch = COMMA then Inr (parse_save_field r START_FIELD)
               else if ch = LF \<or> ch = CR then Inr (parse_save_field r EAT_CRNL)
               else parse_add_char r ch IN_FIELD)
      | EAT_CRNL \<Rightarrow>
          (case c of
             None \<Rightarrow> Inr (r\<lparr>state := START_RECORD\<rparr>)
           | Some ch \<Rightarrow> if ch = LF \<or> ch = CR then Inr r else Inl CsvError))"

fun process_line :: "reader \<Rightarrow> string \<Rightarrow> error + reader" where
  "process_line r [] = process_char r None"
| "process_line r (c # cs) =
     (case process_char r (Some c) of Inl e \<Rightarrow> Inl e | Inr r1 \<Rightarrow> process_line r1 cs)"

text \<open>
  The rows the reader hands out, one per call of \<^verbatim>\<open>next\<close>: a row is complete when the
  machine is back in \<open>START_RECORD\<close> at the end of a line, and otherwise the next line
  continues it. At the end of the input an open quoted field closes the last row. A
  \<^verbatim>\<open>csv.Error\<close> ends the list.
\<close>

fun reader_rows :: "reader \<Rightarrow> string list \<Rightarrow> (error + string list) list" where
  "reader_rows r [] =
     (if field r \<noteq> [] \<or> state r = IN_QUOTED_FIELD
      then [Inr (parsed_fields (parse_save_field r (state r)))] else [])"
| "reader_rows r (l # ls) =
     (case process_line r l of
        Inl e \<Rightarrow> [Inl e]
      | Inr r1 \<Rightarrow>
          if state r1 = START_RECORD then Inr (parsed_fields r1) # reader_rows reader_reset ls
          else reader_rows r1 ls)"

subsection \<open>DictReader\<close>

text \<open>
  The first row names the columns. Every later row that is not empty becomes a
  dictionary, here an association list read by \<open>map_of\<close> (the first pair of a key
  counts): a column without a value holds Python's \<^verbatim>\<open>None\<close>, here \<open>None\<close>, and of two
  columns of one name the later one counts. The values beyond the last column are kept
  by Python under the key \<^verbatim>\<open>None\<close>, which no lookup of the code reads.
\<close>

type_synonym row = "(string \<times> string option) list"

definition row_dict :: "string list \<Rightarrow> string list \<Rightarrow> row" where
  "row_dict fieldnames values =
     rev (zip fieldnames (map Some values)
          @ map (\<lambda>k. (k, None)) (drop (length values) fieldnames))"

definition DictReader :: "(error + string list) list \<Rightarrow> (error + row) list" where
  "DictReader rows =
     (case rows of
        [] \<Rightarrow> []
      | Inl e # _ \<Rightarrow> [Inl e]
      | Inr fieldnames # rest \<Rightarrow>
          map (map_sum id (row_dict fieldnames)) (filter (\<lambda>r. r \<noteq> Inr []) rest))"

definition csv_dict_rows :: "string \<Rightarrow> (error + row) list" where
  "csv_dict_rows text = DictReader (reader_rows reader_reset (file_lines text))"

subsection \<open>Loading\<close>

text \<open>
  The arguments of \<^verbatim>\<open>Product(...)\<close> in lines 85-92, evaluated from left to right.
  \<open>row_get\<close> is \<^verbatim>\<open>row[key]\<close>, a \<^verbatim>\<open>KeyError\<close> when the column does not exist. \<^verbatim>\<open>int\<close> and
  \<^verbatim>\<open>float\<close> raise \<^verbatim>\<open>TypeError\<close> on \<^verbatim>\<open>None\<close> and \<^verbatim>\<open>ValueError\<close> on text that is no number.
  A name or a category that is \<^verbatim>\<open>None\<close> is stored by the code as it is; the record has
  no such text, and the model ends there, after every exception the row could raise,
  with \<open>NoneAsText\<close>.
\<close>

definition bind_result :: "error + 'a \<Rightarrow> ('a \<Rightarrow> error + 'b) \<Rightarrow> error + 'b" where
  "bind_result x f = (case x of Inl e \<Rightarrow> Inl e | Inr v \<Rightarrow> f v)"

definition row_get :: "row \<Rightarrow> string \<Rightarrow> error + string option" where
  "row_get r key = (case map_of r key of None \<Rightarrow> Inl KeyError | Some v \<Rightarrow> Inr v)"

definition int_arg :: "string option \<Rightarrow> error + int" where
  "int_arg v =
     (case v of
        None \<Rightarrow> Inl TypeError
      | Some s \<Rightarrow> (case int_py s of None \<Rightarrow> Inl ValueError | Some i \<Rightarrow> Inr i))"

definition float_arg :: "(string \<Rightarrow> real option) \<Rightarrow> string option \<Rightarrow> error + real" where
  "float_arg float_py v =
     (case v of
        None \<Rightarrow> Inl TypeError
      | Some s \<Rightarrow> (case float_py s of None \<Rightarrow> Inl ValueError | Some x \<Rightarrow> Inr x))"

definition text_arg :: "string option \<Rightarrow> error + string" where
  "text_arg v = (case v of None \<Rightarrow> Inl NoneAsText | Some s \<Rightarrow> Inr s)"

definition product_of_row :: "(string \<Rightarrow> real option) \<Rightarrow> row \<Rightarrow> error + Product" where
  "product_of_row float_py r =
     bind_result (bind_result (row_get r ''product_id'') int_arg) (\<lambda>pid.
     bind_result (row_get r ''name'') (\<lambda>nm.
     bind_result (row_get r ''category'') (\<lambda>cat.
     bind_result (bind_result (row_get r ''price'') (float_arg float_py)) (\<lambda>pr.
     bind_result (bind_result (row_get r ''quantity'') int_arg) (\<lambda>qty.
     bind_result (bind_result (row_get r ''reorder_level'') int_arg) (\<lambda>lvl.
     bind_result (text_arg nm) (\<lambda>nm1.
     bind_result (text_arg cat) (\<lambda>cat1.
       Inr \<lparr>product_id = pid, name = nm1, category = cat1, price = pr,
            quantity = qty, reorder_level = lvl\<rparr>))))))))"

text \<open>
  The loop of lines 84-93 over the rows of the \<^verbatim>\<open>DictReader\<close>, and \<^verbatim>\<open>load_inventory\<close>. The
  alerts of the products added before an exception have been printed by then.
\<close>

fun load_rows ::
  "(string \<Rightarrow> real option) \<Rightarrow> Inventory \<Rightarrow> (error + row) list \<Rightarrow> (error + Inventory) \<times> event list"
where
  "load_rows float_py invt [] = (Inr invt, [])"
| "load_rows float_py invt (r # rs) =
     (case bind_result r (product_of_row float_py) of
        Inl e \<Rightarrow> (Inl e, [])
      | Inr p \<Rightarrow>
          (case add_product invt p of (inv1, ev1) \<Rightarrow>
             (case load_rows float_py inv1 rs of (res, ev2) \<Rightarrow> (res, ev1 @ ev2))))"

definition load_inventory ::
  "(string \<Rightarrow> real option) \<Rightarrow> files \<Rightarrow> string \<Rightarrow> (error + Inventory) \<times> event list"
where
  "load_inventory float_py fs inventory_products =
     (case fs inventory_products of
        None \<Rightarrow> (Inl FileNotFoundError, [])
      | Some text \<Rightarrow> load_rows float_py Inventory_init (csv_dict_rows text))"

text \<open>
  What the claims about loading speak of. A numeric cell is malformed when it holds
  text that \<^verbatim>\<open>int\<close>, or \<^verbatim>\<open>float\<close> for the price, does not read. A row is complete when
  each of the six columns holds text.
\<close>

definition bad_int :: "row \<Rightarrow> string \<Rightarrow> bool" where
  "bad_int r key = (case map_of r key of Some (Some s) \<Rightarrow> int_py s = None | _ \<Rightarrow> False)"

definition bad_float :: "(string \<Rightarrow> real option) \<Rightarrow> row \<Rightarrow> string \<Rightarrow> bool" where
  "bad_float float_py r key =
     (case map_of r key of Some (Some s) \<Rightarrow> float_py s = None | _ \<Rightarrow> False)"

definition malformed_numeric :: "(string \<Rightarrow> real option) \<Rightarrow> row \<Rightarrow> bool" where
  "malformed_numeric float_py r =
     (bad_int r ''product_id'' \<or> bad_float float_py r ''price''
      \<or> bad_int r ''quantity'' \<or> bad_int r ''reorder_level'')"

definition has_text :: "row \<Rightarrow> string \<Rightarrow> bool" where
  "has_text r key = (case map_of r key of Some (Some s) \<Rightarrow> True | _ \<Rightarrow> False)"

definition complete_row :: "row \<Rightarrow> bool" where
  "complete_row r = list_all (has_text r) header"

definition text_cells_not_None :: "row \<Rightarrow> bool" where
  "text_cells_not_None r = (map_of r ''name'' \<noteq> Some None \<and> map_of r ''category'' \<noteq> Some None)"

definition rows_have_text :: "(error + row) list \<Rightarrow> bool" where
  "rows_have_text rows =
     list_all (\<lambda>x. case x of Inl e \<Rightarrow> True | Inr d \<Rightarrow> text_cells_not_None d) rows"

definition rows_complete :: "(error + row) list \<Rightarrow> bool" where
  "rows_complete rows =
     list_all (\<lambda>x. case x of Inl e \<Rightarrow> False | Inr d \<Rightarrow> complete_row d) rows"

section \<open>The menu\<close>

text \<open>
  \<^verbatim>\<open>class Menu\<close>, lines 165-247. Each branch of the loop in \<^verbatim>\<open>run\<close> is a function from
  the menu's state and the lines typed to the exception raised, if any, the state at
  that moment and the events printed. The code catches nothing, so an exception leaves
  \<^verbatim>\<open>run\<close>.
\<close>

record Menu =
  inventory :: Inventory
  logger :: TransactionLogger

definition Menu_init :: "Menu" where
  "Menu_init = \<lparr>inventory = Inventory_init, logger = TransactionLogger_init\<rparr>"

text \<open>
  Choice 6, lines 216-224. \<^verbatim>\<open>update_quantity\<close> changes the object the dictionary holds
  under \<^verbatim>\<open>pid\<close>, which is the entry written back here. A \<^verbatim>\<open>Product\<close> object is always
  true in \<^verbatim>\<open>if product:\<close>, so the branch is taken exactly when the lookup finds one.
\<close>

definition choice_6 :: "Menu \<Rightarrow> string \<Rightarrow> string \<Rightarrow> nat \<Rightarrow> error option \<times> Menu \<times> event list" where
  "choice_6 m pid_text qty_text now =
     (case int_py pid_text of
        None \<Rightarrow> (Some ValueError, m, [])
      | Some pid \<Rightarrow>
          (case int_py qty_text of
             None \<Rightarrow> (Some ValueError, m, [])
           | Some qty \<Rightarrow>
               (case get_product (inventory m) pid of
                  None \<Rightarrow> (None, m, [])
                | Some product \<Rightarrow>
                    (let product1 = update_quantity product qty;
                         ttype = (if qty > 0 then ''IN'' else ''OUT'');
                         t = \<lparr>transaction_id = int (length (transactions (logger m))) + 1,
                              t_product_id = pid, t_quantity = qty,
                              transaction_type = ttype, date = now\<rparr>
                     in (None,
                         m\<lparr>inventory := (inventory m)
                              \<lparr>products := AList.update pid product1 (products (inventory m))\<rparr>,
                           logger := log (logger m) t\<rparr>,
                         check_low_stock product1)))))"

text \<open>
  Choice 9, lines 233-235: the assignment to \<^verbatim>\<open>self.inventory\<close> runs once
  \<^verbatim>\<open>load_inventory\<close> has returned, and the message is printed after it.
\<close>

definition choice_9 ::
  "(string \<Rightarrow> real option) \<Rightarrow> files \<Rightarrow> Menu \<Rightarrow> string \<Rightarrow> error option \<times> Menu \<times> event list"
where
  "choice_9 float_py fs m filename =
     (case load_inventory float_py fs filename of
        (Inl e, ev) \<Rightarrow> (Some e, m, ev)
      | (Inr invt, ev) \<Rightarrow> (None, m\<lparr>inventory := invt\<rparr>, ev @ [Printed ''Loaded successfully.'']))"

section \<open>Equality of text up to letter case\<close>



section \<open>Example data\<close>

definition widget :: Product where
  "widget = \<lparr>product_id = 1, name = ''Widget'', category = ''Hardware'', price = 2.5,
              quantity = 100, reorder_level = 10\<rparr>"

definition gadget :: Product where
  "gadget = \<lparr>product_id = 2, name = ''Gadget'', category = ''Tools'', price = 10,
              quantity = 5, reorder_level = 10\<rparr>"

definition widget_restocked :: Product where
  "widget_restocked = widget\<lparr>quantity := 250\<rparr>"

definition shop :: Menu where
  "shop = \<lparr>inventory = \<lparr>products = [(1, widget), (2, gadget)]\<rparr>, logger = TransactionLogger_init\<rparr>"

text \<open>
  The units sold of a product id, as the specification words them: the sum of the
  absolute quantities of the logged transactions of type OUT that carry the id.
\<close>

definition out_units :: "TransactionLogger \<Rightarrow> int \<Rightarrow> int" where
  "out_units lg pid =
     sum_list (map (\<lambda>t. \<bar>t_quantity t\<bar>)
       (filter (\<lambda>t. transaction_type t = ''OUT'' \<and> t_product_id t = pid) (transactions lg)))"

text \<open>Three movements of product 1, and one of a product 9 that is not in the shop.\<close>

definition movements :: TransactionLogger where
  "movements = \<lparr>transactions =
     [\<lparr>transaction_id = 1, t_product_id = 1, t_quantity = - 5, transaction_type = ''OUT'', date = 0\<rparr>,
      \<lparr>transaction_id = 2, t_product_id = 1, t_quantity = - 3, transaction_type = ''OUT'', date = 1\<rparr>,
      \<lparr>transaction_id = 3, t_product_id = 1, t_quantity = 10, transaction_type = ''IN'', date = 2\<rparr>,
      \<lparr>transaction_id = 4, t_product_id = 9, t_quantity = - 4, transaction_type = ''OUT'', date = 3\<rparr>]\<rparr>"

text \<open>
  A reader and a printer of floats for the examples. On the texts and the numbers of
  the examples they do what Python's \<^verbatim>\<open>float\<close> and \<^verbatim>\<open>str\<close> do: 2.5 and 10.0 are read and
  printed so, and \<^verbatim>\<open>float("abc")\<close> raises.
\<close>

definition float_py_demo :: "string \<Rightarrow> real option" where
  "float_py_demo s = (if s = ''2.5'' then Some 2.5 else if s = ''10.0'' then Some 10 else None)"

definition str_float_demo :: "real \<Rightarrow> string" where
  "str_float_demo x = (if x = 2.5 then ''2.5'' else ''10.0'')"

text \<open>A file whose second product has the price abc.\<close>

definition bad_text :: string where
  "bad_text = ''product_id,name,category,price,quantity,reorder_level'' @ [LF]
     @ ''2,Gadget,Tools,10.0,5,10'' @ [LF]
     @ ''1,Widget,Hardware,abc,100,10'' @ [LF]"

definition good_row :: row where
  "good_row = [(''reorder_level'', Some ''10''), (''quantity'', Some ''5''),
     (''price'', Some ''10.0''), (''category'', Some ''Tools''),
     (''name'', Some ''Gadget''), (''product_id'', Some ''2'')]"

definition bad_row :: row where
  "bad_row = [(''reorder_level'', Some ''10''), (''quantity'', Some ''100''),
     (''price'', Some ''abc''), (''category'', Some ''Hardware''),
     (''name'', Some ''Widget''), (''product_id'', Some ''1'')]"

text \<open>The text \<open>save_inventory\<close> writes for the shop.\<close>

definition shop_text :: string where
  "shop_text = ''product_id,name,category,price,quantity,reorder_level'' @ [CR, LF]
     @ ''1,Widget,Hardware,2.5,100,10'' @ [CR, LF]
     @ ''2,Gadget,Tools,10.0,5,10'' @ [CR, LF]"

text \<open>
  A product whose name holds a carriage return, the inventory that holds it, the text
  \<open>save_inventory\<close> writes for it, and the name that comes back.
\<close>

definition cr_widget :: Product where
  "cr_widget = \<lparr>product_id = 1, name = [CHR ''a'', CR, CHR ''b''], category = ''c'',
                 price = 2.5, quantity = 1, reorder_level = 0\<rparr>"

definition cr_inventory :: Inventory where
  "cr_inventory = \<lparr>products = [(1, cr_widget)]\<rparr>"

definition cr_text :: string where
  "cr_text = ''product_id,name,category,price,quantity,reorder_level'' @ [CR, LF]
     @ ''1,'' @ [DQUOTE, CHR ''a'', CR, CHR ''b'', DQUOTE] @ '',c,2.5,1,0'' @ [CR, LF]"

definition lf_widget :: Product where
  "lf_widget = cr_widget\<lparr>name := [CHR ''a'', LF, CHR ''b'']\<rparr>"

section \<open>Properties of Product and Inventory\<close>


text \<open>
  Claim C6. \<open>is_low_stock\<close> holds exactly when the quantity is at most the reorder level;
  at the boundary, where the quantity equals the reorder level, it holds.
\<close>

theorem is_low_stock_iff:
  "is_low_stock p = (quantity p \<le> reorder_level p)
   \<and> is_low_stock (p\<lparr>quantity := reorder_level p\<rparr>)
   \<and> \<not> is_low_stock (p\<lparr>quantity := reorder_level p + 1\<rparr>)"
  by (simp add: is_low_stock_def)


subsection \<open>Adding, removing and looking up\<close>

lemma get_add_product:
  "get_product (fst (add_product invt p)) k =
     (if k = product_id p then Some p else get_product invt k)"
  by (simp add: get_product_def add_product_def update_conv')

lemma get_add_products_other:
  "\<forall>q\<in>set qs. product_id q \<noteq> k \<Longrightarrow>
     get_product (fst (add_products invt qs)) k = get_product invt k"
proof (induction qs arbitrary: invt)
  case Nil
  then show ?case by simp
next
  case (Cons q qs)
  then show ?case
    using get_add_product [of invt q k] by (simp add: split_beta)
qed

lemma add_products_append:
  "fst (add_products invt (ps @ qs)) = fst (add_products (fst (add_products invt ps)) qs)"
  by (induction ps arbitrary: invt) (simp_all add: split_beta)

lemma length_update_present:
  "k \<in> fst ` set al \<Longrightarrow> length (AList.update k v al) = length al"
  by (induction al) auto

lemma length_add_product_present:
  "get_product invt (product_id p) \<noteq> None \<Longrightarrow>
     length (products (fst (add_product invt p))) = length (products invt)"
  by (simp add: get_product_def add_product_def length_update_present map_of_eq_None_iff)

text \<open>
  Claim C8. After any run of \<open>add_product\<close> calls, looking up the id of a product \<open>p\<close> of
  the run that no later call of the run adds again returns \<open>p\<close> itself. Adding at an id
  already present is no error: the later product replaces the earlier one and the
  number of entries stays the same.
\<close>

theorem get_after_add:
  "((\<forall>q\<in>set qs. product_id q \<noteq> product_id p) \<longrightarrow>
      get_product (fst (add_products invt (ps @ p # qs))) (product_id p) = Some p)
   \<and> (product_id p' = product_id p \<longrightarrow>
      get_product (fst (add_product (fst (add_product invt p)) p')) (product_id p) = Some p')
   \<and> (get_product invt (product_id p) \<noteq> None \<longrightarrow>
      length (products (fst (add_product invt p))) = length (products invt))"
proof (intro conjI impI)
  assume later: "\<forall>q\<in>set qs. product_id q \<noteq> product_id p"
  have "get_product (fst (add_products invt (ps @ p # qs))) (product_id p)
          = get_product (fst (add_product (fst (add_products invt ps)) p)) (product_id p)"
    using get_add_products_other [OF later]
    by (simp add: add_products_append split_beta)
  then show "get_product (fst (add_products invt (ps @ p # qs))) (product_id p) = Some p"
    by (simp add: get_add_product)
next
  assume "product_id p' = product_id p"
  then show "get_product (fst (add_product (fst (add_product invt p)) p')) (product_id p) = Some p'"
    by (simp add: get_add_product)
next
  assume "get_product invt (product_id p) \<noteq> None"
  then show "length (products (fst (add_product invt p))) = length (products invt)"
    by (rule length_add_product_present)
qed

theorem get_after_add_witness:
  "product_id gadget \<noteq> product_id widget
   \<and> get_product (fst (add_products Inventory_init ([gadget] @ widget # [gadget]))) (product_id widget)
       = Some widget
   \<and> product_id widget_restocked = product_id widget
   \<and> get_product (fst (add_product (fst (add_product Inventory_init widget)) widget_restocked))
       (product_id widget) = Some widget_restocked
   \<and> get_product (inventory shop) (product_id widget) \<noteq> None
   \<and> length (products (fst (add_product (inventory shop) widget))) = length (products (inventory shop))"
proof -
  have ids: "product_id gadget \<noteq> product_id widget" "product_id widget_restocked = product_id widget"
    by (simp_all add: gadget_def widget_def widget_restocked_def)
  have present: "get_product (inventory shop) (product_id widget) \<noteq> None"
    by (simp add: get_product_def shop_def widget_def)
  from ids have later: "\<forall>q\<in>set [gadget]. product_id q \<noteq> product_id widget"
    by simp
  show ?thesis
    using ids present later
      get_after_add [of "[gadget]" widget Inventory_init "[gadget]" widget_restocked]
      get_after_add [of "[]" widget "inventory shop" "[]" widget]
    by blast
qed

text \<open>
  Claim C9. For every id, present or not, the lookup after \<open>remove_product\<close> finds
  nothing. Removing an id that is absent raises nothing and leaves the inventory as it
  was, and removing twice is removing once.
\<close>

theorem get_after_remove:
  "get_product (remove_product invt pid) pid = None
   \<and> (get_product invt pid = None \<longrightarrow> remove_product invt pid = invt)
   \<and> remove_product (remove_product invt pid) pid = remove_product invt pid"
  by (simp add: get_product_def remove_product_def delete_conv' delete_idem map_of_eq_None_iff)

theorem get_after_remove_witness:
  "get_product (inventory shop) 7 = None
   \<and> remove_product (inventory shop) 7 = inventory shop
   \<and> get_product (remove_product (inventory shop) 7) 7 = None
   \<and> get_product (inventory shop) 1 = Some widget
   \<and> get_product (remove_product (inventory shop) 1) 1 = None"
proof -
  have absent: "get_product (inventory shop) 7 = None"
    by (simp add: get_product_def shop_def)
  have present: "get_product (inventory shop) 1 = Some widget"
    by (simp add: get_product_def shop_def)
  show ?thesis
    using absent present get_after_remove [of "inventory shop" 7]
      get_after_remove [of "inventory shop" 1]
    by simp
qed

subsection \<open>Searching by category\<close>








subsection \<open>The turnover report\<close>

lemma dict_get0_foldl:
  "dict_get0 (foldl turnover_step d ts) k =
     dict_get0 d k
     + sum_list (map (\<lambda>t. \<bar>t_quantity t\<bar>)
         (filter (\<lambda>t. transaction_type t = ''OUT'' \<and> t_product_id t = k) ts))"
  by (induction ts arbitrary: d) (auto simp: turnover_step_def dict_get0_def)

lemma dict_get0_empty: "dict_get0 Map.empty k = 0"
  by (simp add: dict_get0_def)

lemma dict_get0_turnover_table: "dict_get0 (turnover_table lg) pid = out_units lg pid"
  by (simp add: turnover_table_def dict_get0_foldl dict_get0_empty out_units_def)

text \<open>
  Claim C5. The turnover report has one line per entry of the inventory, in the
  inventory's order, and the line of an entry shows the sum of the absolute quantities
  of the OUT transactions logged for its id: 0 when there is none, and nothing of a
  transaction of type IN or of another id. An id that occurs only in the log has no
  line. With OUT 5, OUT 3 and IN 10 logged for the widget, and OUT 4 for an id that is
  not in the inventory, the report shows 8 for the widget and 0 for the gadget.
\<close>

theorem turnover_report_units:
  "turnover_report invt lg
     = map (\<lambda>(pid, product). UnitsSold (name product) (out_units lg pid)) (products invt)
   \<and> length (turnover_report invt lg) = length (products invt)
   \<and> turnover_report (inventory shop) movements = [UnitsSold ''Widget'' 8, UnitsSold ''Gadget'' 0]"
proof (intro conjI)
  show "turnover_report invt lg
     = map (\<lambda>(pid, product). UnitsSold (name product) (out_units lg pid)) (products invt)"
    by (simp add: turnover_report_def dict_get0_turnover_table)
  show "length (turnover_report invt lg) = length (products invt)"
    by (simp add: turnover_report_def)
  show "turnover_report (inventory shop) movements = [UnitsSold ''Widget'' 8, UnitsSold ''Gadget'' 0]"
    by (simp add: turnover_report_def dict_get0_turnover_table out_units_def
        shop_def movements_def widget_def gadget_def)
qed

subsection \<open>Adjusting a quantity\<close>

lemma int_py_examples:
  "int_py ''1'' = Some 1" "int_py ''0'' = Some 0" "int_py ''-5'' = Some (- 5)"
  "int_py ''5'' = Some 5" "int_py ''7'' = Some 7"
  by code_simp+

lemma get_product_shop:
  "get_product (inventory shop) 1 = Some widget" "get_product (inventory shop) 7 = None"
  by (simp_all add: get_product_def shop_def)

text \<open>
  Claim C2, as the code has it. A quantity adjustment of a product that is present logs
  exactly one transaction, with the id and the quantity typed and the next number; its
  type is IN exactly when the quantity is strictly positive, and OUT exactly when the
  quantity is zero or negative.
\<close>

theorem choice_6_transaction_type:
  assumes "int_py pid_text = Some pid" and "int_py qty_text = Some qty"
    and "get_product (inventory m) pid = Some product"
  shows "\<exists>t. transactions (logger (fst (snd (choice_6 m pid_text qty_text now))))
               = transactions (logger m) @ [t]
          \<and> t_product_id t = pid \<and> t_quantity t = qty
          \<and> transaction_id t = int (length (transactions (logger m))) + 1
          \<and> (transaction_type t = ''IN'' \<longleftrightarrow> 0 < qty)
          \<and> (transaction_type t = ''OUT'' \<longleftrightarrow> qty \<le> 0)"
  using assms by (simp add: choice_6_def Let_def log_def)

theorem choice_6_transaction_type_witness:
  "int_py ''1'' = Some 1 \<and> int_py ''-5'' = Some (- 5)
   \<and> get_product (inventory shop) 1 = Some widget
   \<and> (\<exists>t. transactions (logger (fst (snd (choice_6 shop ''1'' ''-5'' 0))))
              = transactions (logger shop) @ [t]
         \<and> t_quantity t = - 5 \<and> transaction_type t = ''OUT'')"
  using choice_6_transaction_type [OF int_py_examples(1) int_py_examples(3) get_product_shop(1), of 0]
    int_py_examples(1) int_py_examples(3) get_product_shop(1)
  by auto

text \<open>
  The claim as the specification words it fails at a quantity of zero: the transaction
  logged is of type OUT, and zero is not negative.
\<close>

theorem choice_6_zero_is_OUT:
  "transaction_type (last (transactions (logger (fst (snd (choice_6 shop ''1'' ''0'' 0)))))) = ''OUT''
   \<and> t_quantity (last (transactions (logger (fst (snd (choice_6 shop ''1'' ''0'' 0)))))) = 0
   \<and> \<not> (transaction_type (last (transactions (logger (fst (snd (choice_6 shop ''1'' ''0'' 0))))))
          = ''OUT''
        \<longleftrightarrow> t_quantity (last (transactions (logger (fst (snd (choice_6 shop ''1'' ''0'' 0)))))) < 0)"
  by (simp add: choice_6_def int_py_examples get_product_shop Let_def log_def)

text \<open>
  Claim C3, as the code has it. Adjusting the quantity of an id that is not in the
  inventory raises nothing and prints nothing: the branch ends normally with the
  inventory and the log as they were, so no transaction is logged and no product
  changes.
\<close>

theorem choice_6_absent_silent:
  assumes "int_py pid_text = Some pid" and "int_py qty_text = Some qty"
    and "get_product (inventory m) pid = None"
  shows "choice_6 m pid_text qty_text now = (None, m, [])"
  using assms by (simp add: choice_6_def)

theorem choice_6_absent_silent_witness:
  "int_py ''7'' = Some 7 \<and> int_py ''5'' = Some 5 \<and> get_product (inventory shop) 7 = None
   \<and> choice_6 shop ''7'' ''5'' 0 = (None, shop, [])"
  using choice_6_absent_silent [OF int_py_examples(5) int_py_examples(4) get_product_shop(2), of 0]
    int_py_examples(5) int_py_examples(4) get_product_shop(2)
  by simp

text \<open>
  The claim as the specification words it fails on the empty menu: no failure is
  reported for the absent id 1, the branch returns normally and prints nothing.
\<close>

theorem choice_6_absent_no_failure:
  "fst (choice_6 Menu_init ''1'' ''5'' 0) = None
   \<and> snd (snd (choice_6 Menu_init ''1'' ''5'' 0)) = []
   \<and> fst (snd (choice_6 Menu_init ''1'' ''5'' 0)) = Menu_init"
  by (simp add: choice_6_def int_py_examples get_product_def Menu_init_def Inventory_init_def)


section \<open>Properties of loading and saving\<close>

subsection \<open>A row that cannot be read\<close>

lemmas row_defs = product_of_row_def bind_result_def row_get_def int_arg_def float_arg_def
  text_arg_def

lemma product_of_row_malformed:
  "malformed_numeric float_py r \<Longrightarrow> \<exists>e. product_of_row float_py r = Inl e \<and> e \<noteq> NoneAsText"
  unfolding malformed_numeric_def bad_int_def bad_float_def row_defs
  by (auto split: option.splits)

lemma product_of_row_text:
  "text_cells_not_None r \<Longrightarrow> product_of_row float_py r \<noteq> Inl NoneAsText"
  unfolding text_cells_not_None_def row_defs
  by (auto split: option.splits)

lemma product_of_row_complete:
  "complete_row r \<Longrightarrow> product_of_row float_py r = Inl e \<Longrightarrow> e = ValueError"
  unfolding complete_row_def has_text_def header_def row_defs
  by (auto split: option.splits)

text \<open>One row that raises makes the loop raise, with the exception of some row.\<close>

lemma load_rows_fails:
  "x \<in> set rows \<Longrightarrow> bind_result x (product_of_row float_py) = Inl e0 \<Longrightarrow>
     \<exists>e ev. load_rows float_py invt rows = (Inl e, ev)
       \<and> (\<exists>y\<in>set rows. bind_result y (product_of_row float_py) = Inl e)"
proof (induction rows arbitrary: invt)
  case Nil
  then show ?case by simp
next
  case (Cons r rs)
  show ?case
  proof (cases "bind_result r (product_of_row float_py)")
    case (Inl e)
    then show ?thesis by auto
  next
    case (Inr p)
    with Cons.prems have "x \<in> set rs" by auto
    from Cons.IH [OF this Cons.prems(2), of "fst (add_product invt p)"]
    obtain e ev where "load_rows float_py (fst (add_product invt p)) rs = (Inl e, ev)"
      and "\<exists>y\<in>set rs. bind_result y (product_of_row float_py) = Inl e"
      by blast
    with Inr show ?thesis
      by (auto simp: split_beta)
  qed
qed

text \<open>The reader raises nothing but \<^verbatim>\<open>csv.Error\<close>.\<close>

lemma process_char_error: "process_char r c = Inl e \<Longrightarrow> e = CsvError"
  unfolding process_char_def start_field_def parse_add_char_def
  by (auto split: parser_state.splits option.splits if_splits)

lemma process_line_error: "process_line r l = Inl e \<Longrightarrow> e = CsvError"
  by (induction l arbitrary: r) (auto split: sum.splits dest: process_char_error)

lemma reader_rows_error: "Inl e \<in> set (reader_rows r ls) \<Longrightarrow> e = CsvError"
  by (induction r ls rule: reader_rows.induct)
     (auto split: sum.splits if_splits dest: process_line_error)

lemma map_sum_id_Inl: "map_sum id f x = Inl e \<Longrightarrow> x = Inl e"
  by (cases x) auto

lemma DictReader_error: "Inl e \<in> set (DictReader rows) \<Longrightarrow> Inl e \<in> set rows"
proof (cases rows)
  case Nil
  then show "Inl e \<in> set (DictReader rows) \<Longrightarrow> Inl e \<in> set rows"
    by (simp add: DictReader_def)
next
  case (Cons a rest)
  assume member: "Inl e \<in> set (DictReader rows)"
  show "Inl e \<in> set rows"
  proof (cases a)
    case (Inl e')
    with Cons member show ?thesis by (simp add: DictReader_def)
  next
    case (Inr fieldnames)
    with Cons member obtain x where "x \<in> set rest" "map_sum id (row_dict fieldnames) x = Inl e"
      by (auto simp: DictReader_def)
    with Cons show ?thesis by (auto dest: map_sum_id_Inl)
  qed
qed

lemma csv_dict_rows_error: "Inl e \<in> set (csv_dict_rows content) \<Longrightarrow> e = CsvError"
  unfolding csv_dict_rows_def
  by (blast dest: DictReader_error reader_rows_error)

text \<open>
  Claim C4. Let the file exist and hold ASCII text, let one of its rows have a numeric
  cell that \<^verbatim>\<open>int\<close> or \<^verbatim>\<open>float\<close> does not read, and let no row leave the name or the
  category without a value. Then \<open>load_inventory\<close> raises and returns no inventory,
  whatever the rows before and after hold, and choice 9 of the menu leaves the menu's
  inventory and log as they were, the assignment coming after the call. When every row
  has text in all six columns, the exception is the \<^verbatim>\<open>ValueError\<close> of the parse.
\<close>

theorem load_inventory_malformed:
  assumes "is_ascii content" and "fs filename = Some content"
    and "Inr r \<in> set (csv_dict_rows content)" and "malformed_numeric float_py r"
    and "rows_have_text (csv_dict_rows content)"
  shows "\<exists>e ev. load_inventory float_py fs filename = (Inl e, ev) \<and> e \<noteq> NoneAsText
           \<and> choice_9 float_py fs m filename = (Some e, m, ev)
           \<and> (rows_complete (csv_dict_rows content) \<longrightarrow> e = ValueError)"
proof -
  from product_of_row_malformed [OF assms(4)]
  obtain e0 where "bind_result (Inr r) (product_of_row float_py) = Inl e0"
    by (auto simp: bind_result_def)
  from load_rows_fails [OF assms(3) this, of Inventory_init]
  obtain e ev y where res: "load_rows float_py Inventory_init (csv_dict_rows content) = (Inl e, ev)"
    and y: "y \<in> set (csv_dict_rows content)" "bind_result y (product_of_row float_py) = Inl e"
    by blast
  have load: "load_inventory float_py fs filename = (Inl e, ev)"
    using assms(2) res by (simp add: load_inventory_def)
  have genuine: "e \<noteq> NoneAsText"
  proof (cases y)
    case (Inl e')
    with y have "e = CsvError"
      using csv_dict_rows_error [of e' content] by (simp add: bind_result_def)
    then show ?thesis by simp
  next
    case (Inr d)
    with y(1) assms(5) have "text_cells_not_None d"
      by (auto simp: rows_have_text_def list_all_iff)
    from product_of_row_text [OF this, of float_py] Inr y(2) show ?thesis
      by (auto simp: bind_result_def)
  qed
  have kind: "e = ValueError" if "rows_complete (csv_dict_rows content)"
  proof -
    from that y(1) have "case y of Inl e \<Rightarrow> False | Inr d \<Rightarrow> complete_row d"
      by (simp add: rows_complete_def list_all_iff)
    then obtain d where d: "y = Inr d" "complete_row d"
      by (cases y) auto
    with y(2) have "product_of_row float_py d = Inl e"
      by (simp add: bind_result_def)
    from product_of_row_complete [OF d(2) this] show ?thesis .
  qed
  from load genuine kind show ?thesis
    by (simp add: choice_9_def)
qed

lemmas reader_defs = process_char_def start_field_def parse_add_char_def parse_save_field_def
  reader_reset_def field_limit_def

lemma file_lines_bad_text:
  "file_lines bad_text =
     [''product_id,name,category,price,quantity,reorder_level'' @ [LF],
      ''2,Gadget,Tools,10.0,5,10'' @ [LF],
      ''1,Widget,Hardware,abc,100,10'' @ [LF]]"
  by (simp add: file_lines_def bad_text_def)

lemma csv_dict_rows_bad_text: "csv_dict_rows bad_text = [Inr good_row, Inr bad_row]"
  unfolding csv_dict_rows_def file_lines_bad_text
  by (simp add: reader_defs DictReader_def row_dict_def good_row_def bad_row_def
      cong: sum.case_cong_weak option.case_cong_weak parser_state.case_cong_weak
        if_weak_cong list.case_cong_weak)

theorem load_inventory_malformed_witness:
  "is_ascii bad_text \<and> [''bad.csv'' \<mapsto> bad_text] ''bad.csv'' = Some bad_text
   \<and> Inr bad_row \<in> set (csv_dict_rows bad_text) \<and> malformed_numeric float_py_demo bad_row
   \<and> rows_have_text (csv_dict_rows bad_text) \<and> rows_complete (csv_dict_rows bad_text)
   \<and> (\<exists>ev. load_inventory float_py_demo [''bad.csv'' \<mapsto> bad_text] ''bad.csv'' = (Inl ValueError, ev)
          \<and> choice_9 float_py_demo [''bad.csv'' \<mapsto> bad_text] shop ''bad.csv''
              = (Some ValueError, shop, ev))"
proof -
  have ascii: "is_ascii bad_text"
    by (simp add: is_ascii_def bad_text_def)
  have stored: "[''bad.csv'' \<mapsto> bad_text] ''bad.csv'' = Some bad_text"
    by simp
  have member: "Inr bad_row \<in> set (csv_dict_rows bad_text)"
    by (simp add: csv_dict_rows_bad_text)
  have bad: "malformed_numeric float_py_demo bad_row"
    by (simp add: malformed_numeric_def bad_float_def bad_row_def float_py_demo_def)
  have texts: "rows_have_text (csv_dict_rows bad_text)"
    by (simp add: csv_dict_rows_bad_text rows_have_text_def text_cells_not_None_def
        good_row_def bad_row_def)
  have complete: "rows_complete (csv_dict_rows bad_text)"
    by (simp add: csv_dict_rows_bad_text rows_complete_def complete_row_def has_text_def
        header_def good_row_def bad_row_def)
  from load_inventory_malformed
      [where content = bad_text and fs = "[''bad.csv'' \<mapsto> bad_text]" and filename = "''bad.csv''"
        and r = bad_row and float_py = float_py_demo and m = shop,
        OF ascii stored member bad texts]
    complete
  have "\<exists>ev. load_inventory float_py_demo [''bad.csv'' \<mapsto> bad_text] ''bad.csv'' = (Inl ValueError, ev)
          \<and> choice_9 float_py_demo [''bad.csv'' \<mapsto> bad_text] shop ''bad.csv''
              = (Some ValueError, shop, ev)"
    by blast
  with ascii stored member bad texts complete show ?thesis
    by blast
qed

subsection \<open>Saving and loading again\<close>

lemma str_int_examples: "str_int 1 = Some ''1''" "str_int 0 = Some ''0''"
  by code_simp+

lemma file_lines_cr_text:
  "file_lines cr_text =
     [''product_id,name,category,price,quantity,reorder_level'' @ [LF],
      ''1,'' @ [DQUOTE, CHR ''a'', LF],
      [CHR ''b'', DQUOTE] @ '',c,2.5,1,0'' @ [LF]]"
  by (simp add: file_lines_def cr_text_def)

lemma csv_dict_rows_cr_text:
  "csv_dict_rows cr_text =
     [Inr [(''reorder_level'', Some ''0''), (''quantity'', Some ''1''),
           (''price'', Some ''2.5''), (''category'', Some ''c''),
           (''name'', Some [CHR ''a'', LF, CHR ''b'']), (''product_id'', Some ''1'')]]"
  unfolding csv_dict_rows_def file_lines_cr_text
  by (simp add: reader_defs DictReader_def row_dict_def
      cong: sum.case_cong_weak option.case_cong_weak parser_state.case_cong_weak
        if_weak_cong list.case_cong_weak)

text \<open>
  The shop of the examples comes back as it was saved, in the same order, and the alert
  of the gadget is printed while it loads.
\<close>

lemma str_int_more: "str_int 2 = Some ''2''" "str_int 5 = Some ''5''" "str_int 10 = Some ''10''"
  "str_int 100 = Some ''100''"
  by code_simp+

lemma int_py_more: "int_py ''2'' = Some 2" "int_py ''10'' = Some 10" "int_py ''100'' = Some 100"
  by code_simp+

lemma file_lines_shop_text:
  "file_lines shop_text =
     [''product_id,name,category,price,quantity,reorder_level'' @ [LF],
      ''1,Widget,Hardware,2.5,100,10'' @ [LF],
      ''2,Gadget,Tools,10.0,5,10'' @ [LF]]"
  by (simp add: file_lines_def shop_text_def)

lemma csv_dict_rows_shop_text:
  "csv_dict_rows shop_text =
     [Inr [(''reorder_level'', Some ''10''), (''quantity'', Some ''100''),
           (''price'', Some ''2.5''), (''category'', Some ''Hardware''),
           (''name'', Some ''Widget''), (''product_id'', Some ''1'')],
      Inr good_row]"
  unfolding csv_dict_rows_def file_lines_shop_text
  by (simp add: reader_defs DictReader_def row_dict_def good_row_def
      cong: sum.case_cong_weak option.case_cong_weak parser_state.case_cong_weak
        if_weak_cong list.case_cong_weak)

lemma save_shop:
  assumes "str_float 2.5 = ''2.5''" and "str_float 10 = ''10.0''"
  shows "save_inventory str_float (inventory shop) fs ''stock.csv''
           = (None, fs(''stock.csv'' \<mapsto> shop_text))"
  using assms
  by (simp add: save_inventory_def shop_def products_values_def widget_def gadget_def
      product_row_def str_int_examples str_int_more writerow_def header_def csv_field_def
      needs_quotes_def shop_text_def)

lemma load_shop:
  assumes "float_py ''2.5'' = Some 2.5" and "float_py ''10.0'' = Some 10"
  shows "load_inventory float_py (fs(''stock.csv'' \<mapsto> shop_text)) ''stock.csv''
           = (Inr (inventory shop), [LowStockAlert ''Gadget'' 5])"
  using assms
  by (simp add: load_inventory_def csv_dict_rows_shop_text row_defs int_py_examples
      int_py_more good_row_def add_product_def check_low_stock_def is_low_stock_def
      Inventory_init_def shop_def widget_def gadget_def)

text \<open>
  Claim C1 at a product whose name holds a carriage return, for every printer and
  reader of floats that print 2.5 as "2.5" and read it back, as Python's do. Saving
  succeeds and writes the name in quotes with the carriage return in it. Loading that
  file succeeds, and the product it returns under the id 1 has a line feed in its name
  where the carriage return was: the name is not the one that was saved.
\<close>

theorem save_load_carriage_return:
  assumes "str_float 2.5 = ''2.5''" and "float_py ''2.5'' = Some 2.5"
  shows "save_inventory str_float cr_inventory fs ''stock.csv''
           = (None, fs(''stock.csv'' \<mapsto> cr_text))
         \<and> load_inventory float_py (fs(''stock.csv'' \<mapsto> cr_text)) ''stock.csv''
           = (Inr \<lparr>products = [(1, lf_widget)]\<rparr>, [])
         \<and> get_product cr_inventory 1 = Some cr_widget
         \<and> name lf_widget \<noteq> name cr_widget"
proof (intro conjI)
  show "save_inventory str_float cr_inventory fs ''stock.csv''
          = (None, fs(''stock.csv'' \<mapsto> cr_text))"
    using assms(1)
    by (simp add: save_inventory_def cr_inventory_def products_values_def cr_widget_def
        product_row_def str_int_examples writerow_def header_def csv_field_def
        needs_quotes_def cr_text_def)
  show "load_inventory float_py (fs(''stock.csv'' \<mapsto> cr_text)) ''stock.csv''
          = (Inr \<lparr>products = [(1, lf_widget)]\<rparr>, [])"
    using assms(2)
    by (simp add: load_inventory_def csv_dict_rows_cr_text row_defs int_py_examples
        add_product_def check_low_stock_def is_low_stock_def Inventory_init_def
        lf_widget_def cr_widget_def)
  show "get_product cr_inventory 1 = Some cr_widget"
    by (simp add: get_product_def cr_inventory_def)
  show "name lf_widget \<noteq> name cr_widget"
    by (simp add: lf_widget_def cr_widget_def)
qed

theorem save_load_carriage_return_witness:
  "str_float_demo 2.5 = ''2.5'' \<and> float_py_demo ''2.5'' = Some 2.5
   \<and> save_inventory str_float_demo cr_inventory Map.empty ''stock.csv''
       = (None, [''stock.csv'' \<mapsto> cr_text])
   \<and> load_inventory float_py_demo [''stock.csv'' \<mapsto> cr_text] ''stock.csv''
       = (Inr \<lparr>products = [(1, lf_widget)]\<rparr>, [])
   \<and> name lf_widget \<noteq> name cr_widget"
proof -
  have printed: "str_float_demo 2.5 = ''2.5''"
    by (simp add: str_float_demo_def)
  have read: "float_py_demo ''2.5'' = Some 2.5"
    by (simp add: float_py_demo_def)
  from save_load_carriage_return
      [where str_float = str_float_demo and float_py = float_py_demo and fs = Map.empty,
        OF printed read]
    printed read
  show ?thesis by simp
qed

end
